theory Spec2Isabelle
  imports Main
begin

section \<open>Calendar dates\<close>

text \<open>
  The date input of \<^verbatim>\<open>date-input.tsx\<close> keeps every date as a string, either the empty
  string or a day written \<^verbatim>\<open>YYYY-MM-DD\<close>. A day is modelled by its three numbers, and
  the string that holds it by \<open>DateString\<close>: \<open>Empty\<close> is the empty string \<^verbatim>\<open>''\<close>,
  \<open>Day d\<close> the canonical text of \<open>d\<close>. A JavaScript \<^verbatim>\<open>null\<close> or \<^verbatim>\<open>undefined\<close> in place of
  a string is \<open>None\<close> of \<open>DateString option\<close>.
\<close>

record CalendarDate =
  year :: int
  month :: int
  day :: int

datatype DateString = Empty | Day CalendarDate

definition isLeapYear :: "int \<Rightarrow> bool" where
  "isLeapYear y = ((y mod 4 = 0 \<and> y mod 100 \<noteq> 0) \<or> y mod 400 = 0)"

definition daysInMonthOf :: "int \<Rightarrow> int \<Rightarrow> int" where
  "daysInMonthOf y m =
     (if m = 2 then (if isLeapYear y then 29 else 28)
      else if m = 4 \<or> m = 6 \<or> m = 9 \<or> m = 11 then 30
      else 31)"

definition validDate :: "CalendarDate \<Rightarrow> bool" where
  "validDate d =
     (1 \<le> month d \<and> month d \<le> 12 \<and> 1 \<le> day d \<and> day d \<le> daysInMonthOf (year d) (month d))"

text \<open>The months counted from year 0, to measure how far a navigation moves the grid.\<close>

definition monthIndex :: "CalendarDate \<Rightarrow> int" where
  "monthIndex d = year d * 12 + (month d - 1)"

subsection \<open>The helpers of calendar-utils\<close>

text \<open>
  The component imports its date arithmetic from \<^verbatim>\<open>@commercetools-uikit/calendar-utils\<close>,
  a package of this repository whose source is not among the files at hand. Each helper
  below is modelled from section 4.1 of the specification.
\<close>

definition getDaysInMonth :: "CalendarDate \<Rightarrow> int" where
  \<comment> \<open>Modelled from the spec: \<^verbatim>\<open>getDaysInMonth\<close> of calendar-utils is missing; "integer count
      of days in that date's month, correct across leap years".\<close>
  "getDaysInMonth d = daysInMonthOf (year d) (month d)"

definition getDateInMonth :: "CalendarDate \<Rightarrow> int" where
  \<comment> \<open>Modelled from the spec: \<^verbatim>\<open>getDateInMonth\<close> of calendar-utils is missing; the day of
      the month, whose grid index is one less.\<close>
  "getDateInMonth d = day d"

definition changeMonth :: "CalendarDate \<Rightarrow> int \<Rightarrow> CalendarDate" where
  \<comment> \<open>Modelled from the spec: \<^verbatim>\<open>changeMonth\<close> of calendar-utils is missing; "returns the date
      shifted by n months (negative allowed), clamping the day-of-month to the target
      month's last valid day if it would overflow".\<close>
  "changeMonth d amount =
     (let total = monthIndex d + amount;
          y = total div 12;
          m = total mod 12 + 1
      in \<lparr>year = y, month = m, day = min (day d) (daysInMonthOf y m)\<rparr>)"

definition nextDay :: "CalendarDate \<Rightarrow> CalendarDate" where
  \<comment> \<open>Modelled from the spec: "+1 day, rolling over month/year boundaries correctly".\<close>
  "nextDay d =
     (if day d < getDaysInMonth d then d\<lparr>day := day d + 1\<rparr>
      else if month d < 12 then \<lparr>year = year d, month = month d + 1, day = 1\<rparr>
      else \<lparr>year = year d + 1, month = 1, day = 1\<rparr>)"

definition previousDay :: "CalendarDate \<Rightarrow> CalendarDate" where
  \<comment> \<open>Modelled from the spec: "-1 day, rolling over month/year boundaries correctly".\<close>
  "previousDay d =
     (if 1 < day d then d\<lparr>day := day d - 1\<rparr>
      else if 1 < month d
        then \<lparr>year = year d, month = month d - 1, day = daysInMonthOf (year d) (month d - 1)\<rparr>
      else \<lparr>year = year d - 1, month = 12, day = 31\<rparr>)"

definition dateLE :: "CalendarDate \<Rightarrow> CalendarDate \<Rightarrow> bool" where
  "dateLE a b =
     (year a < year b \<or>
      (year a = year b \<and> (month a < month b \<or> (month a = month b \<and> day a \<le> day b))))"

definition boundOf :: "DateString option \<Rightarrow> CalendarDate option" where
  \<comment> \<open>A bound is absent when the prop is undefined or the empty string.\<close>
  "boundOf b = (case b of None \<Rightarrow> None | Some Empty \<Rightarrow> None | Some (Day d) \<Rightarrow> Some d)"

definition getIsDateInRange ::
  "DateString \<Rightarrow> DateString option \<Rightarrow> DateString option \<Rightarrow> bool" where
  \<comment> \<open>Modelled from the spec: \<^verbatim>\<open>getIsDateInRange\<close> of calendar-utils is missing; "true if
      min absent or date >= min, and max absent or date <= max. Absent date is never in
      range".\<close>
  "getIsDateInRange item minV maxV =
     (case item of
        Empty \<Rightarrow> False
      | Day d \<Rightarrow>
          (case boundOf minV of None \<Rightarrow> True | Some lo \<Rightarrow> dateLE lo d) \<and>
          (case boundOf maxV of None \<Rightarrow> True | Some hi \<Rightarrow> dateLE d hi))"

definition isSameDay :: "DateString \<Rightarrow> DateString \<Rightarrow> bool" where
  \<comment> \<open>Modelled from the spec: \<^verbatim>\<open>isSameDay\<close> of calendar-utils is missing; "structural
      equality" of two days.\<close>
  "isSameDay a b = (case a of Empty \<Rightarrow> False | Day x \<Rightarrow> b = Day x)"

definition createCalendarItems :: "CalendarDate \<Rightarrow> CalendarDate list" where
  \<comment> \<open>Modelled from the spec: \<^verbatim>\<open>createCalendarItems\<close> of calendar-utils is missing; "one Day
      cell per day 1..daysInMonth, in ascending order".\<close>
  "createCalendarItems d =
     map (\<lambda>i. \<lparr>year = year d, month = month d, day = i\<rparr>) [1..getDaysInMonth d]"

section \<open>The text of the input\<close>

text \<open>
  The text the user types is a JavaScript string, a sequence of UTF-16 code units, and
  \<^verbatim>\<open>String.prototype.trim\<close> depends on code units beyond ASCII; so that text is a list
  of code units, each a number. \<open>ofAscii\<close> gives the code units of an ASCII literal.
  Keys, ids, names and the locale are only compared or passed on whole and stay
  \<open>string\<close>.
\<close>

type_synonym JSString = "nat list"

definition ofAscii :: "string \<Rightarrow> JSString" where
  "ofAscii s = map of_char s"

text \<open>
  \<^verbatim>\<open>trim\<close> removes from both ends the white space and the line terminators of
  ECMAScript: tab, line feed, vertical tab, form feed, carriage return, space,
  no-break space U+00A0, U+1680, U+2000 to U+200A, the line and paragraph separators
  U+2028 and U+2029, U+202F, U+205F, U+3000 and the byte order mark U+FEFF.
\<close>

definition isWhiteSpace :: "nat \<Rightarrow> bool" where
  "isWhiteSpace c =
     ((9 \<le> c \<and> c \<le> 13) \<or> c = 32 \<or> c = 160 \<or> c = 5760 \<or> (8192 \<le> c \<and> c \<le> 8202)
      \<or> c = 8232 \<or> c = 8233 \<or> c = 8239 \<or> c = 8287 \<or> c = 12288 \<or> c = 65279)"

definition trim :: "JSString \<Rightarrow> JSString" where
  "trim s = rev (dropWhile isWhiteSpace (rev (dropWhile isWhiteSpace s)))"

section \<open>The environment of the component\<close>

text \<open>
  What the component reads from outside itself: the current day (\<^verbatim>\<open>getToday()\<close>), the
  locale of \<^verbatim>\<open>useIntl()\<close>, and the free-text parser \<^verbatim>\<open>parseInputToDate\<close> of
  calendar-utils, taken as a parameter: it maps a text and a locale to a day or to the
  empty string.
\<close>

record Env =
  today :: CalendarDate
  intlLocale :: string
  parser :: "JSString \<Rightarrow> string \<Rightarrow> DateString"

definition getToday :: "Env \<Rightarrow> CalendarDate" where
  "getToday env = today env"

definition parseInputToDate :: "Env \<Rightarrow> JSString \<Rightarrow> DateString" where
  "parseInputToDate env text = parser env text (intlLocale env)"

definition getNextDay :: "Env \<Rightarrow> CalendarDate option \<Rightarrow> CalendarDate" where
  \<comment> \<open>Modelled from the spec: \<^verbatim>\<open>getNextDay\<close> of calendar-utils is missing. The argument is
      an element read from the grid and is \<^verbatim>\<open>undefined\<close> (\<open>None\<close>) when the index is
      outside it; the date library then starts from the current day.\<close>
  "getNextDay env item = nextDay (case item of None \<Rightarrow> getToday env | Some d \<Rightarrow> d)"

definition getPreviousDay :: "Env \<Rightarrow> CalendarDate option \<Rightarrow> CalendarDate" where
  \<comment> \<open>Modelled from the spec: \<^verbatim>\<open>getPreviousDay\<close> of calendar-utils is missing; an
      \<^verbatim>\<open>undefined\<close> argument is read as for \<open>getNextDay\<close>.\<close>
  "getPreviousDay env item = previousDay (case item of None \<Rightarrow> getToday env | Some d \<Rightarrow> d)"

section \<open>The component\<close>

subsection \<open>Props, state and what a handler does\<close>

text \<open>
  The props of \<^verbatim>\<open>TDateInput\<close> that the handlers read. \<open>onChange\<close> and \<open>onBlur\<close>
  say whether the consumer passed the callback; the events delivered to them are part
  of a handler's outcome. \<open>minValue\<close> and \<open>maxValue\<close> are optional strings.
\<close>

record TDateInput =
  propValue :: DateString
  onChange :: bool
  onBlur :: bool
  propId :: "string option"
  propName :: "string option"
  isDisabled :: bool
  isReadOnly :: bool
  minValue :: "DateString option"
  maxValue :: "DateString option"
  filterAppearance :: bool

text \<open>
  \<open>highlightedIndex\<close> is declared \<^verbatim>\<open>number | null | undefined\<close>. \<^verbatim>\<open>Number\<close> turns
  \<^verbatim>\<open>null\<close> into 0 and \<^verbatim>\<open>undefined\<close> into NaN, here \<open>None\<close>.
\<close>

datatype HighlightedIndex = Index int | Null | Undefined

definition Number :: "HighlightedIndex \<Rightarrow> int option" where
  "Number h = (case h of Index i \<Rightarrow> Some i | Null \<Rightarrow> Some 0 | Undefined \<Rightarrow> None)"

text \<open>The three \<^verbatim>\<open>useState\<close> cells of the component.\<close>

record DateInputState =
  calendarDate :: CalendarDate
  suggestedItems :: "CalendarDate list"
  highlightedIndex :: HighlightedIndex

definition initialState :: "TDateInput \<Rightarrow> Env \<Rightarrow> DateInputState" where
  "initialState props env =
     \<lparr>calendarDate = (case propValue props of Empty \<Rightarrow> getToday env | Day d \<Rightarrow> d),
      suggestedItems = [],
      highlightedIndex =
        (case propValue props of Empty \<Rightarrow> Null | Day d \<Rightarrow> Index (getDateInMonth d - 1))\<rparr>"

text \<open>
  \<^verbatim>\<open>TCustomEvent\<close>: the target of an event handed to \<^verbatim>\<open>onChange\<close> or \<^verbatim>\<open>onBlur\<close>; the
  value is absent from a blur event.
\<close>

record TCustomEvent =
  targetId :: "string option"
  targetName :: "string option"
  targetValue :: "DateString option"

datatype DomCall = Focus | SetSelectionRange int int

datatype DownshiftCall = ClearSelection | SetDownshiftHighlightedIndex HighlightedIndex | OpenMenu

text \<open>
  The outcome of one handler: the state after it, the events it handed to the
  consumer's \<^verbatim>\<open>onChange\<close> and \<^verbatim>\<open>onBlur\<close>, whether it set
  \<^verbatim>\<open>preventDownshiftDefault\<close> on the event, the helpers of Downshift it called and
  the calls it made on the input element.
\<close>

record Outcome =
  nextState :: DateInputState
  changeEvents :: "TCustomEvent list"
  blurEvents :: "TCustomEvent list"
  preventDownshiftDefault :: bool
  downshiftCalls :: "DownshiftCall list"
  domCalls :: "DomCall list"

definition unchanged :: "DateInputState \<Rightarrow> Outcome" where
  "unchanged st =
     \<lparr>nextState = st, changeEvents = [], blurEvents = [], preventDownshiftDefault = False,
      downshiftCalls = [], domCalls = []\<rparr>"

definition warning :: "bool \<Rightarrow> string \<Rightarrow> string list" where
  \<comment> \<open>Modelled from the spec: \<^verbatim>\<open>warning\<close> of the utils package is missing; a failed
      condition is "logged, not thrown". The result is what is logged.\<close>
  "warning condition message = (if condition then [] else [message])"

definition renderWarnings :: "TDateInput \<Rightarrow> string list" where
  "renderWarnings props =
     (if \<not> isReadOnly props
      then warning (onChange props)
             ''DateInput: `onChange` is required when input is not read only.''
      else [])"

subsection \<open>Callbacks\<close>

definition emit :: "TDateInput \<Rightarrow> DateString option \<Rightarrow> TCustomEvent list" where
  \<comment> \<open>\<^verbatim>\<open>onChange?.({target: {id, name, value: value || ''}})\<close>\<close>
  "emit props v =
     (if onChange props
      then [\<lparr>targetId = propId props, targetName = propName props,
             targetValue = Some (case v of None \<Rightarrow> Empty | Some s \<Rightarrow> s)\<rparr>]
      else [])"

definition handleChange :: "TDateInput \<Rightarrow> DateInputState \<Rightarrow> DateString option \<Rightarrow> Outcome" where
  "handleChange props st date =
     (unchanged st)\<lparr>domCalls := [SetSelectionRange 0 100], changeEvents := emit props date\<rparr>"

definition handleBlur :: "TDateInput \<Rightarrow> DateInputState \<Rightarrow> Outcome" where
  "handleBlur props st =
     (unchanged st)\<lparr>blurEvents :=
        (if onBlur props
         then [\<lparr>targetId = propId props, targetName = propName props, targetValue = None\<rparr>]
         else [])\<rparr>"

definition showToday :: "Env \<Rightarrow> DateInputState \<Rightarrow> Outcome" where
  "showToday env st =
     (let today = getToday env
      in (unchanged
            (st\<lparr>calendarDate := today,
                highlightedIndex :=
                  Index (int (length (suggestedItems st)) + getDateInMonth today - 1)\<rparr>))
         \<lparr>domCalls := [Focus]\<rparr>)"

definition jumpMonth :: "DateInputState \<Rightarrow> int \<Rightarrow> int \<Rightarrow> DateInputState" where
  "jumpMonth st amount dayToHighlight =
     (let nextDate = changeMonth (calendarDate st) amount
      in st\<lparr>calendarDate := nextDate, highlightedIndex := Index dayToHighlight\<rparr>)"

definition onInputBlur ::
  "TDateInput \<Rightarrow> Env \<Rightarrow> DateInputState \<Rightarrow> JSString option \<Rightarrow> Outcome" where
  "onInputBlur props env st targetVal =
     (let inputValue = (case targetVal of None \<Rightarrow> [] | Some s \<Rightarrow> s);
          date = parseInputToDate env inputValue;
          inRange = getIsDateInRange date (minValue props) (maxValue props);
          first = (if length inputValue = 0 then emit props (Some Empty) else [])
      in if date = Empty \<or> \<not> inRange
         then (unchanged st)\<lparr>changeEvents := first\<rparr>
         else (unchanged st)\<lparr>changeEvents := first @ emit props (Some date)\<rparr>)"

subsection \<open>State changes reported by Downshift\<close>

text \<open>
  The object Downshift passes to \<^verbatim>\<open>onStateChange\<close>. A field is \<open>None\<close> when the
  object has no such property of its own (\<^verbatim>\<open>hasOwnProperty\<close>); the type is compared
  with \<^verbatim>\<open>Downshift.stateChangeTypes.changeInput\<close> only.
\<close>

datatype StateChangeType = ChangeInput | OtherChange

record StateChanges =
  changeType :: StateChangeType
  changedInputValue :: "JSString option"
  changedHighlightedIndex :: "HighlightedIndex option"

definition onStateChange ::
  "TDateInput \<Rightarrow> Env \<Rightarrow> DateInputState \<Rightarrow> StateChanges \<Rightarrow> Outcome" where
  "onStateChange props env st changes =
     (case changedInputValue changes of
        Some inputValue \<Rightarrow>
          (if changeType changes = ChangeInput
           then (case parseInputToDate env inputValue of
                   Empty \<Rightarrow> unchanged (st\<lparr>suggestedItems := [], highlightedIndex := Null\<rparr>)
                 | Day d \<Rightarrow>
                     (let st1 = st\<lparr>suggestedItems := [d]\<rparr>;
                          st2 = (if getIsDateInRange (Day d) (minValue props) (maxValue props)
                                 then st1\<lparr>highlightedIndex := Index (getDateInMonth d - 1)\<rparr>
                                 else st1)
                      in unchanged (st2\<lparr>calendarDate := d\<rparr>)))
           else unchanged (st\<lparr>suggestedItems := [], highlightedIndex := Null\<rparr>))
      | None \<Rightarrow>
          (case changedHighlightedIndex changes of
             Some h \<Rightarrow> unchanged (st\<lparr>highlightedIndex := h\<rparr>)
           | None \<Rightarrow> unchanged st))"

subsection \<open>The key handler of the input\<close>

text \<open>
  \<^verbatim>\<open>calendarItems[i]\<close>: an index outside the array, or NaN, reads \<^verbatim>\<open>undefined\<close>.
\<close>

definition itemAt :: "CalendarDate list \<Rightarrow> int option \<Rightarrow> CalendarDate option" where
  "itemAt items n =
     (case n of
        None \<Rightarrow> None
      | Some i \<Rightarrow> if 0 \<le> i \<and> i < int (length items) then Some (items ! nat i) else None)"

definition prevented :: "DateInputState \<Rightarrow> Outcome" where
  \<comment> \<open>\<^verbatim>\<open>preventDownshiftDefault(event); return\<close> with the state as it was\<close>
  "prevented st = (unchanged st)\<lparr>preventDownshiftDefault := True\<rparr>"

definition onArrowDown :: "TDateInput \<Rightarrow> Env \<Rightarrow> DateInputState \<Rightarrow> Outcome \<Rightarrow> Outcome" where
  "onArrowDown props env st acc =
     (let calendarItems = createCalendarItems (calendarDate st);
          n = Number (highlightedIndex st);
          nextDayToHighlight = getNextDay env (itemAt calendarItems n)
      in if \<not> getIsDateInRange (Day nextDayToHighlight) (minValue props) (maxValue props)
         then acc\<lparr>preventDownshiftDefault := True\<rparr>
         else if (case n of None \<Rightarrow> False | Some i \<Rightarrow> i + 1 \<ge> int (length calendarItems))
         then acc\<lparr>preventDownshiftDefault := True, nextState := jumpMonth st 1 0\<rparr>
         else acc)"

definition onArrowUp :: "TDateInput \<Rightarrow> Env \<Rightarrow> DateInputState \<Rightarrow> Outcome \<Rightarrow> Outcome" where
  "onArrowUp props env st acc =
     (let calendarItems = createCalendarItems (calendarDate st);
          n = Number (highlightedIndex st);
          previousDay = getPreviousDay env (itemAt calendarItems n)
      in if \<not> getIsDateInRange (Day previousDay) (minValue props) (maxValue props)
         then acc\<lparr>preventDownshiftDefault := True\<rparr>
         else if (case n of None \<Rightarrow> False | Some i \<Rightarrow> i \<le> 0)
         then (let numberOfDaysOfPrevMonth = getDaysInMonth previousDay
               in acc\<lparr>preventDownshiftDefault := True,
                       nextState := jumpMonth st (- 1) (numberOfDaysOfPrevMonth - 1)\<rparr>)
         else acc)"

text \<open>
  \<open>onKeyDown props env st inputValue key\<close>: the handler on the key \<open>key\<close>, with
  Downshift's current \<open>inputValue\<close> (a string or \<^verbatim>\<open>null\<close>). The three tests on the key
  follow one another as in the source; a key is one string, so at most one applies.
\<close>

definition onKeyDown ::
  "TDateInput \<Rightarrow> Env \<Rightarrow> DateInputState \<Rightarrow> JSString option \<Rightarrow> string \<Rightarrow> Outcome" where
  "onKeyDown props env st inputValue key =
     (if isReadOnly props then prevented st
      else
        (let o1 = (if key = ''Enter'' \<and> map_option trim inputValue = Some []
                   then (unchanged st)\<lparr>downshiftCalls := [ClearSelection]\<rparr>
                   else unchanged st)
         in if key = ''ArrowDown'' then onArrowDown props env st o1
            else if key = ''ArrowUp'' then onArrowUp props env st o1
            else o1))"

subsection \<open>The calendar as rendered\<close>

text \<open>
  One \<^verbatim>\<open>CalendarDay\<close> per item of the grid: the item registered with Downshift by
  \<^verbatim>\<open>getItemProps\<close>, disabled when it is outside the range.
\<close>

record CalendarCell =
  cellItem :: CalendarDate
  cellIsToday :: bool
  cellDisabled :: bool
  cellIsSelected :: bool

definition calendarCells :: "TDateInput \<Rightarrow> Env \<Rightarrow> DateInputState \<Rightarrow> CalendarCell list" where
  "calendarCells props env st =
     map (\<lambda>item.
            \<lparr>cellItem = item,
             cellIsToday = isSameDay (Day (getToday env)) (Day item),
             cellDisabled = (\<not> getIsDateInRange (Day item) (minValue props) (maxValue props)),
             cellIsSelected = isSameDay (Day item) (propValue props)\<rparr>)
         (createCalendarItems (calendarDate st))"

record View =
  menuShown :: bool
  hasSelection :: bool
  cells :: "CalendarCell list"

definition render :: "TDateInput \<Rightarrow> Env \<Rightarrow> DateInputState \<Rightarrow> bool \<Rightarrow> View" where
  "render props env st isOpen =
     \<lparr>menuShown =
        ((isOpen \<and> \<not> isDisabled props \<and> \<not> isReadOnly props) \<or>
         (filterAppearance props \<and> \<not> isDisabled props \<and> \<not> isReadOnly props)),
      hasSelection = (propValue props \<noteq> Empty),
      cells = calendarCells props env st\<rparr>"

subsection \<open>Every interaction\<close>

datatype Interaction =
    KeyDown string "JSString option"
  | StateChange StateChanges
  | Change "DateString option"
  | InputBlur "JSString option"
  | FocusLeaves
  | InputMouseEnter bool
  | InputClick
  | ItemMouseOut
  | PrevMonthClick
  | TodayClick
  | NextMonthClick
  | PrevYearClick
  | NextYearClick

text \<open>
  The wiring of the render function: which handler each interaction reaches.
  \<open>Change\<close> is Downshift calling its \<^verbatim>\<open>onChange\<close> prop with the new selection,
  \<open>StateChange\<close> its \<^verbatim>\<open>onStateChange\<close> prop; \<open>InputMouseEnter\<close> carries Downshift's
  \<^verbatim>\<open>isOpen\<close>. The header buttons call \<^verbatim>\<open>jumpMonth\<close> with the default
  \<^verbatim>\<open>dayToHighlight = 0\<close>.
\<close>

fun step :: "TDateInput \<Rightarrow> Env \<Rightarrow> DateInputState \<Rightarrow> Interaction \<Rightarrow> Outcome" where
  "step props env st (KeyDown key inputValue) = onKeyDown props env st inputValue key"
| "step props env st (StateChange changes) = onStateChange props env st changes"
| "step props env st (Change item) = handleChange props st item"
| "step props env st (InputBlur v) = onInputBlur props env st v"
| "step props env st FocusLeaves = handleBlur props st"
| "step props env st (InputMouseEnter isOpen) =
     (if isOpen then (unchanged st)\<lparr>downshiftCalls := [SetDownshiftHighlightedIndex Null]\<rparr>
      else unchanged st)"
| "step props env st InputClick =
     (if isReadOnly props then unchanged st else (unchanged st)\<lparr>downshiftCalls := [OpenMenu]\<rparr>)"
| "step props env st ItemMouseOut =
     (unchanged st)\<lparr>downshiftCalls := [SetDownshiftHighlightedIndex Null]\<rparr>"
| "step props env st PrevMonthClick = unchanged (jumpMonth st (- 1) 0)"
| "step props env st TodayClick = showToday env st"
| "step props env st NextMonthClick = unchanged (jumpMonth st 1 0)"
| "step props env st PrevYearClick = unchanged (jumpMonth st (- 12) 0)"
| "step props env st NextYearClick = unchanged (jumpMonth st 12 0)"

subsection \<open>What Enter commits\<close>

text \<open>
  Downshift is a library outside this repository. Three parts of its contract decide
  what a press of Enter hands to the consumer, and are written down here as the
  component relies on them:
  \<^item> Downshift calls its \<^verbatim>\<open>onChange\<close> prop, which is \<open>handleChange\<close>, only when the
    selection it is setting differs from the current one; the component controls the
    current one through the prop \<^verbatim>\<open>selectedItem\<close>, \<^verbatim>\<open>null\<close> when the value is the empty
    string and the value otherwise;
  \<^item> \<^verbatim>\<open>clearSelection()\<close> sets the selection to \<^verbatim>\<open>null\<close>;
  \<^item> unless the handler has set \<^verbatim>\<open>preventDownshiftDefault\<close>, Downshift's own Enter
    sets the selection to the item at the highlighted index, when the menu is open,
    the index is a number designating an item and that item is not disabled. The
    highlighted index is the one the component controls.
\<close>

definition selectedItem :: "TDateInput \<Rightarrow> DateString option" where
  \<comment> \<open>\<^verbatim>\<open>selectedItem={props.value === '' ? null : props.value}\<close>\<close>
  "selectedItem props = (if propValue props = Empty then None else Some (propValue props))"

definition reportSelection ::
  "TDateInput \<Rightarrow> DateInputState \<Rightarrow> DateString option \<Rightarrow> TCustomEvent list" where
  "reportSelection props st item =
     (if item = selectedItem props then [] else changeEvents (handleChange props st item))"

definition downshiftEnter :: "TDateInput \<Rightarrow> Env \<Rightarrow> DateInputState \<Rightarrow> bool \<Rightarrow> CalendarDate option" where
  "downshiftEnter props env st isOpen =
     (if \<not> isOpen then None
      else (case highlightedIndex st of
              Index i \<Rightarrow>
                (if 0 \<le> i \<and> i < int (length (calendarCells props env st))
                 then (let c = calendarCells props env st ! nat i
                       in if cellDisabled c then None else Some (cellItem c))
                 else None)
            | Null \<Rightarrow> None
            | Undefined \<Rightarrow> None))"

text \<open>
  The change events of one press of Enter, in the order of the calls: the report of the
  cleared selection when the handler called \<^verbatim>\<open>clearSelection\<close>, then the report of
  the item Downshift's own Enter selects.
\<close>

definition pressEnter ::
  "TDateInput \<Rightarrow> Env \<Rightarrow> DateInputState \<Rightarrow> bool \<Rightarrow> JSString option \<Rightarrow> TCustomEvent list" where
  "pressEnter props env st isOpen inputValue =
     (let out = onKeyDown props env st inputValue ''Enter'';
          cleared = (if ClearSelection \<in> set (downshiftCalls out)
                     then reportSelection props st None else []);
          chosen = (if preventDownshiftDefault out then []
                    else (case downshiftEnter props env st isOpen of
                            None \<Rightarrow> []
                          | Some item \<Rightarrow> reportSelection props st (Some (Day item))))
      in changeEvents out @ cleared @ chosen)"

subsection \<open>A parser of the canonical format\<close>

text \<open>
  One parser the environment can hold, for concrete runs of the handlers: it reads the
  canonical text \<^verbatim>\<open>YYYY-MM-DD\<close> of a real calendar day and answers the empty string to
  everything else, blank text included.
\<close>

definition digitOf :: "nat \<Rightarrow> int option" where
  "digitOf c = (if 48 \<le> c \<and> c \<le> 57 then Some (int c - 48) else None)"

definition numberOf :: "JSString \<Rightarrow> int option" where
  "numberOf cs =
     foldl (\<lambda>acc c. case acc of None \<Rightarrow> None
                    | Some a \<Rightarrow> (case digitOf c of None \<Rightarrow> None | Some v \<Rightarrow> Some (10 * a + v)))
           (Some 0) cs"

definition parseCanonical :: "JSString \<Rightarrow> string \<Rightarrow> DateString" where
  \<comment> \<open>Modelled from the spec: \<^verbatim>\<open>parseInputToDate\<close> of calendar-utils is missing; it
      "accepts the locale's canonical date format" and "returns empty for blank input";
      malformed text is "no suggestion". The format is that of the locale en-CA; the
      locale is not consulted. The hyphen is code unit 45.\<close>
  "parseCanonical text loc =
     (if length text = 10 \<and> text ! 4 = 45 \<and> text ! 7 = 45
      then (case numberOf (take 4 text) of
              None \<Rightarrow> Empty
            | Some y \<Rightarrow>
                (case numberOf (take 2 (drop 5 text)) of
                   None \<Rightarrow> Empty
                 | Some m \<Rightarrow>
                     (case numberOf (drop 8 text) of
                        None \<Rightarrow> Empty
                      | Some d \<Rightarrow>
                          (let date = \<lparr>year = y, month = m, day = d\<rparr>
                           in if validDate date then Day date else Empty))))
      else Empty)"

subsection \<open>Concrete inputs\<close>

text \<open>
  A consumer that passes every callback, selects 25 March 2024 and allows no day before
  20 March 2024, on 10 March 2024, under the locale en-CA.
\<close>

definition ymd :: "int \<Rightarrow> int \<Rightarrow> int \<Rightarrow> CalendarDate" where
  "ymd y m d = \<lparr>year = y, month = m, day = d\<rparr>"

definition exampleEnv :: Env where
  "exampleEnv = \<lparr>today = ymd 2024 3 10, intlLocale = ''en-CA'', parser = parseCanonical\<rparr>"

definition exampleProps :: TDateInput where
  "exampleProps =
     \<lparr>propValue = Day (ymd 2024 3 25), onChange = True, onBlur = True,
      propId = Some ''date'', propName = Some ''date'', isDisabled = False,
      isReadOnly = False, minValue = Some (Day (ymd 2024 3 20)), maxValue = None,
      filterAppearance = False\<rparr>"

definition stateOf :: "CalendarDate \<Rightarrow> CalendarDate list \<Rightarrow> HighlightedIndex \<Rightarrow> DateInputState" where
  "stateOf d suggested h = \<lparr>calendarDate = d, suggestedItems = suggested, highlightedIndex = h\<rparr>"

subsection \<open>Shorthands\<close>

text \<open>
  The event \<open>emit\<close> hands to \<^verbatim>\<open>onChange\<close> for a value, and the state change Downshift
  reports when the user types \<open>text\<close> (\<open>h\<close> is the highlighted index the report may
  carry besides).
\<close>

definition changeEvent :: "TDateInput \<Rightarrow> DateString \<Rightarrow> TCustomEvent" where
  "changeEvent props v = \<lparr>targetId = propId props, targetName = propName props, targetValue = Some v\<rparr>"

definition typed :: "JSString \<Rightarrow> HighlightedIndex option \<Rightarrow> StateChanges" where
  "typed text h =
     \<lparr>changeType = ChangeInput, changedInputValue = Some text, changedHighlightedIndex = h\<rparr>"

section \<open>Date arithmetic\<close>

lemma daysInMonthOf_bounds: "28 \<le> daysInMonthOf y m \<and> daysInMonthOf y m \<le> 31"
  by (simp add: daysInMonthOf_def)

lemma length_createCalendarItems:
  "length (createCalendarItems d) = nat (getDaysInMonth d)"
  by (simp add: createCalendarItems_def)

lemma itemAt_createCalendarItems:
  assumes "0 \<le> i" "i < getDaysInMonth d"
  shows "itemAt (createCalendarItems d) (Some i) = Some \<lparr>year = year d, month = month d, day = i + 1\<rparr>"
  using assms by (simp add: itemAt_def createCalendarItems_def)

lemma monthIndex_changeMonth: "monthIndex (changeMonth d n) = monthIndex d + n"
  by (simp add: changeMonth_def monthIndex_def Let_def)

lemma changeMonth_month_range:
  "1 \<le> month (changeMonth d n) \<and> month (changeMonth d n) \<le> 12"
  by (simp add: changeMonth_def Let_def)

lemma validDate_changeMonth: "validDate d \<Longrightarrow> validDate (changeMonth d n)"
  using daysInMonthOf_bounds[of "(monthIndex d + n) div 12" "(monthIndex d + n) mod 12 + 1"]
  by (simp add: validDate_def changeMonth_def Let_def min_def)

lemma changeMonth_forward:
  assumes "1 \<le> month d" "month d \<le> 12"
  shows "year (changeMonth d 1) = (if month d < 12 then year d else year d + 1)"
    and "month (changeMonth d 1) = (if month d < 12 then month d + 1 else 1)"
  using assms by (auto simp add: changeMonth_def monthIndex_def Let_def)

lemma divmod_twelve:
  fixes y r :: int
  assumes "0 \<le> r" "r < 12"
  shows "(y * 12 + r) div 12 = y" and "(y * 12 + r) mod 12 = r"
  using assms by presburger+

lemma changeMonth_backward:
  assumes "1 \<le> month d" "month d \<le> 12"
  shows "year (changeMonth d (- 1)) = (if 1 < month d then year d else year d - 1)"
    and "month (changeMonth d (- 1)) = (if 1 < month d then month d - 1 else 12)"
proof -
  have total: "monthIndex d + (- 1) =
      (if 1 < month d then year d * 12 + (month d - 2) else (year d - 1) * 12 + 11)"
    using assms by (simp add: monthIndex_def)
  show "year (changeMonth d (- 1)) = (if 1 < month d then year d else year d - 1)"
    using assms divmod_twelve(1)[of "month d - 2" "year d"] divmod_twelve(1)[of 11 "year d - 1"]
    unfolding changeMonth_def Let_def total by (simp split: if_splits)
  show "month (changeMonth d (- 1)) = (if 1 < month d then month d - 1 else 12)"
    using assms divmod_twelve(2)[of "month d - 2" "year d"] divmod_twelve(2)[of 11 "year d - 1"]
    unfolding changeMonth_def Let_def total by (simp split: if_splits)
qed

lemma nextDay_of_last_day:
  assumes "1 \<le> month d" "month d \<le> 12"
  shows "nextDay \<lparr>year = year d, month = month d, day = getDaysInMonth d\<rparr>
         = \<lparr>year = year (changeMonth d 1), month = month (changeMonth d 1), day = 1\<rparr>"
  using assms by (simp add: nextDay_def getDaysInMonth_def changeMonth_forward)

lemma previousDay_of_first_day:
  assumes "1 \<le> month d" "month d \<le> 12"
  shows "previousDay \<lparr>year = year d, month = month d, day = 1\<rparr>
         = \<lparr>year = year (changeMonth d (- 1)), month = month (changeMonth d (- 1)),
            day = getDaysInMonth (changeMonth d (- 1))\<rparr>"
  using assms by (auto simp add: previousDay_def getDaysInMonth_def changeMonth_backward daysInMonthOf_def)


section \<open>Arrow keys at the edge of the month\<close>

lemma last_index_reads_last_day:
  assumes "validDate (calendarDate st)"
    and "highlightedIndex st = Index (getDaysInMonth (calendarDate st) - 1)"
  shows "itemAt (createCalendarItems (calendarDate st)) (Number (highlightedIndex st))
         = Some ((calendarDate st)\<lparr>day := getDaysInMonth (calendarDate st)\<rparr>)"
  using assms daysInMonthOf_bounds[of "year (calendarDate st)" "month (calendarDate st)"]
  by (simp add: Number_def itemAt_createCalendarItems getDaysInMonth_def)

lemma first_index_reads_first_day:
  assumes "Number (highlightedIndex st) = Some 0"
  shows "itemAt (createCalendarItems (calendarDate st)) (Number (highlightedIndex st))
         = Some ((calendarDate st)\<lparr>day := 1\<rparr>)"
  using assms daysInMonthOf_bounds[of "year (calendarDate st)" "month (calendarDate st)"]
  by (simp add: itemAt_createCalendarItems getDaysInMonth_def)

text \<open>
  C1. When the read-only guard is off and the highlighted cell is the last day of the
  displayed month, ArrowDown looks at the day after it, the first day of the next
  month. If that day is in the range, the displayed month moves forward by exactly one
  month and the highlighted index becomes 0; if it is not, the handler sets
  \<^verbatim>\<open>preventDownshiftDefault\<close> and returns with the displayed month, the highlighted index
  and the suggestions as they were. Neither case emits an event.
\<close>

theorem arrowDown_from_last_day:
  assumes "\<not> isReadOnly props"
    and "validDate (calendarDate st)"
    and "highlightedIndex st = Index (getDaysInMonth (calendarDate st) - 1)"
  shows "onKeyDown props env st inputValue ''ArrowDown'' =
           (if getIsDateInRange
                 (Day (nextDay ((calendarDate st)\<lparr>day := getDaysInMonth (calendarDate st)\<rparr>)))
                 (minValue props) (maxValue props)
            then (unchanged (st\<lparr>calendarDate := changeMonth (calendarDate st) 1,
                                highlightedIndex := Index 0\<rparr>))
                 \<lparr>preventDownshiftDefault := True\<rparr>
            else (unchanged st)\<lparr>preventDownshiftDefault := True\<rparr>)
         \<and> monthIndex (changeMonth (calendarDate st) 1) = monthIndex (calendarDate st) + 1
         \<and> validDate (changeMonth (calendarDate st) 1)"
proof -
  have item: "itemAt (createCalendarItems (calendarDate st)) (Number (highlightedIndex st))
              = Some ((calendarDate st)\<lparr>day := getDaysInMonth (calendarDate st)\<rparr>)"
    using assms(2,3) by (rule last_index_reads_last_day)
  have edge: "(case Number (highlightedIndex st) of None \<Rightarrow> False
               | Some i \<Rightarrow> i + 1 \<ge> int (length (createCalendarItems (calendarDate st))))"
    using assms(3) daysInMonthOf_bounds[of "year (calendarDate st)" "month (calendarDate st)"]
    by (simp add: Number_def length_createCalendarItems getDaysInMonth_def)
  have "onArrowDown props env st (unchanged st) =
           (if getIsDateInRange
                 (Day (nextDay ((calendarDate st)\<lparr>day := getDaysInMonth (calendarDate st)\<rparr>)))
                 (minValue props) (maxValue props)
            then (unchanged (st\<lparr>calendarDate := changeMonth (calendarDate st) 1,
                                highlightedIndex := Index 0\<rparr>))
                 \<lparr>preventDownshiftDefault := True\<rparr>
            else (unchanged st)\<lparr>preventDownshiftDefault := True\<rparr>)"
    using edge unfolding onArrowDown_def Let_def item
    by (simp add: getNextDay_def jumpMonth_def unchanged_def)
  then show ?thesis
    using assms(1,2)
    by (simp add: onKeyDown_def monthIndex_changeMonth validDate_changeMonth)
qed


theorem arrowDown_from_last_day_witness:
  "onKeyDown exampleProps exampleEnv (stateOf (ymd 2024 3 25) [] (Index 30)) None ''ArrowDown''
     = (unchanged (stateOf (ymd 2024 4 25) [] (Index 0)))\<lparr>preventDownshiftDefault := True\<rparr>
   \<and> onKeyDown (exampleProps\<lparr>maxValue := Some (Day (ymd 2024 3 31))\<rparr>) exampleEnv
        (stateOf (ymd 2024 3 25) [] (Index 30)) None ''ArrowDown''
     = (unchanged (stateOf (ymd 2024 3 25) [] (Index 30)))\<lparr>preventDownshiftDefault := True\<rparr>"
  using arrowDown_from_last_day [of exampleProps "stateOf (ymd 2024 3 25) [] (Index 30)"
          exampleEnv None]
        arrowDown_from_last_day [of "exampleProps\<lparr>maxValue := Some (Day (ymd 2024 3 31))\<rparr>"
          "stateOf (ymd 2024 3 25) [] (Index 30)" exampleEnv None]
  by (simp add: exampleProps_def stateOf_def ymd_def validDate_def getDaysInMonth_def
        daysInMonthOf_def isLeapYear_def nextDay_def getIsDateInRange_def boundOf_def
        dateLE_def changeMonth_def monthIndex_def)

lemma onArrowUp_at_first_day:
  assumes "validDate (calendarDate st)"
    and "Number (highlightedIndex st) = Some 0"
  shows "onArrowUp props env st (unchanged st) =
           (if getIsDateInRange (Day (previousDay ((calendarDate st)\<lparr>day := 1\<rparr>)))
                 (minValue props) (maxValue props)
            then (unchanged
                    (st\<lparr>calendarDate := changeMonth (calendarDate st) (- 1),
                        highlightedIndex :=
                          Index (getDaysInMonth (changeMonth (calendarDate st) (- 1)) - 1)\<rparr>))
                 \<lparr>preventDownshiftDefault := True\<rparr>
            else (unchanged st)\<lparr>preventDownshiftDefault := True\<rparr>)"
proof -
  have item: "itemAt (createCalendarItems (calendarDate st)) (Number (highlightedIndex st))
              = Some ((calendarDate st)\<lparr>day := 1\<rparr>)"
    using assms(2) by (rule first_index_reads_first_day)
  have months: "1 \<le> month (calendarDate st)" "month (calendarDate st) \<le> 12"
    using assms(1) by (simp_all add: validDate_def)
  have "previousDay ((calendarDate st)\<lparr>day := 1\<rparr>) =
          \<lparr>year = year (changeMonth (calendarDate st) (- 1)),
           month = month (changeMonth (calendarDate st) (- 1)),
           day = getDaysInMonth (changeMonth (calendarDate st) (- 1))\<rparr>"
    using previousDay_of_first_day[OF months] by (cases "calendarDate st") simp
  then have days: "getDaysInMonth (previousDay ((calendarDate st)\<lparr>day := 1\<rparr>)) =
          getDaysInMonth (changeMonth (calendarDate st) (- 1))"
    by (simp add: getDaysInMonth_def)
  show ?thesis
    unfolding onArrowUp_def Let_def item
    by (simp add: assms(2) getPreviousDay_def jumpMonth_def unchanged_def days)
qed

text \<open>
  C2. When the read-only guard is off and the highlighted index is 0, ArrowUp looks at
  the day before the first day of the displayed month, the last day of the previous
  month. If that day is in the range, the displayed month moves back by exactly one
  month and the highlighted index becomes the last index of that month's grid, its
  number of days minus one; if it is not, the handler sets \<^verbatim>\<open>preventDownshiftDefault\<close>
  and returns with every state field as it was.
\<close>

theorem arrowUp_from_first_day:
  assumes "\<not> isReadOnly props"
    and "validDate (calendarDate st)"
    and "highlightedIndex st = Index 0"
  shows "onKeyDown props env st inputValue ''ArrowUp'' =
           (if getIsDateInRange (Day (previousDay ((calendarDate st)\<lparr>day := 1\<rparr>)))
                 (minValue props) (maxValue props)
            then (unchanged
                    (st\<lparr>calendarDate := changeMonth (calendarDate st) (- 1),
                        highlightedIndex :=
                          Index (getDaysInMonth (changeMonth (calendarDate st) (- 1)) - 1)\<rparr>))
                 \<lparr>preventDownshiftDefault := True\<rparr>
            else (unchanged st)\<lparr>preventDownshiftDefault := True\<rparr>)
         \<and> monthIndex (changeMonth (calendarDate st) (- 1)) = monthIndex (calendarDate st) - 1
         \<and> getDaysInMonth (changeMonth (calendarDate st) (- 1)) - 1 =
             int (length (createCalendarItems (changeMonth (calendarDate st) (- 1)))) - 1
         \<and> validDate (changeMonth (calendarDate st) (- 1))"
proof -
  have "Number (highlightedIndex st) = Some 0"
    using assms(3) by (simp add: Number_def)
  then have "onKeyDown props env st inputValue ''ArrowUp'' = onArrowUp props env st (unchanged st)"
    using assms(1) by (simp add: onKeyDown_def)
  moreover have "0 \<le> getDaysInMonth (changeMonth (calendarDate st) (- 1))"
    using daysInMonthOf_bounds[of "year (changeMonth (calendarDate st) (- 1))"
        "month (changeMonth (calendarDate st) (- 1))"]
    by (simp add: getDaysInMonth_def)
  ultimately show ?thesis
    using onArrowUp_at_first_day[OF assms(2) \<open>Number (highlightedIndex st) = Some 0\<close>, of props env]
      assms(2)
    by (simp add: monthIndex_changeMonth validDate_changeMonth length_createCalendarItems)
qed

lemmas date_simps = ymd_def validDate_def getDaysInMonth_def daysInMonthOf_def isLeapYear_def
  nextDay_def previousDay_def getIsDateInRange_def boundOf_def dateLE_def changeMonth_def
  monthIndex_def getDateInMonth_def

lemmas example_simps = exampleProps_def exampleEnv_def stateOf_def

lemma parse_examples:
  "parseInputToDate exampleEnv (ofAscii ''2024-03-15'') = Day (ymd 2024 3 15)"
  "parseInputToDate exampleEnv (ofAscii ''2024-03-25'') = Day (ymd 2024 3 25)"
  "parseInputToDate exampleEnv (ofAscii ''  '') = Empty"
  "parseInputToDate exampleEnv [] = Empty"
  "parseInputToDate exampleEnv (ofAscii ''tomorrow'') = Empty"
  by (simp_all add: parseInputToDate_def exampleEnv_def parseCanonical_def numberOf_def
        digitOf_def ofAscii_def date_simps)

lemma ofAscii_empty:
  "ofAscii [] = []" "ofAscii (c # cs) \<noteq> []"
  by (simp_all add: ofAscii_def)

lemma two_spaces_are_blank: "trim (ofAscii ''  '') = []"
  by (simp add: trim_def isWhiteSpace_def ofAscii_def)

lemma initial_example:
  "initialState exampleProps exampleEnv = stateOf (ymd 2024 3 25) [] (Index 24)"
  by (simp add: initialState_def example_simps date_simps)

lemma length_calendarCells:
  "length (calendarCells props env st) = nat (getDaysInMonth (calendarDate st))"
  by (simp add: calendarCells_def length_createCalendarItems)

lemma calendarCells_nth:
  assumes "0 \<le> i" "i < getDaysInMonth (calendarDate st)"
  shows "cellItem (calendarCells props env st ! nat i)
           = \<lparr>year = year (calendarDate st), month = month (calendarDate st), day = i + 1\<rparr>"
    and "cellDisabled (calendarCells props env st ! nat i)
           = (\<not> getIsDateInRange
                 (Day \<lparr>year = year (calendarDate st), month = month (calendarDate st), day = i + 1\<rparr>)
                 (minValue props) (maxValue props))"
  using assms by (simp_all add: calendarCells_def createCalendarItems_def add.commute)

theorem arrowUp_from_first_day_witness:
  "onKeyDown exampleProps exampleEnv (stateOf (ymd 2024 5 31) [] (Index 0)) None ''ArrowUp''
     = (unchanged (stateOf (ymd 2024 4 30) [] (Index 29)))\<lparr>preventDownshiftDefault := True\<rparr>
   \<and> onKeyDown exampleProps exampleEnv (stateOf (ymd 2024 3 25) [] (Index 0)) None ''ArrowUp''
     = (unchanged (stateOf (ymd 2024 3 25) [] (Index 0)))\<lparr>preventDownshiftDefault := True\<rparr>"
  using arrowUp_from_first_day [of exampleProps "stateOf (ymd 2024 5 31) [] (Index 0)"
          exampleEnv None]
        arrowUp_from_first_day [of exampleProps "stateOf (ymd 2024 3 25) [] (Index 0)"
          exampleEnv None]
  by (simp add: example_simps date_simps)

lemma onArrowDown_at_first_day:
  assumes "Number (highlightedIndex st) = Some 0"
  shows "onArrowDown props env st (unchanged st) =
           (if getIsDateInRange (Day (nextDay ((calendarDate st)\<lparr>day := 1\<rparr>)))
                 (minValue props) (maxValue props)
            then unchanged st
            else (unchanged st)\<lparr>preventDownshiftDefault := True\<rparr>)"
proof -
  have item: "itemAt (createCalendarItems (calendarDate st)) (Number (highlightedIndex st))
              = Some ((calendarDate st)\<lparr>day := 1\<rparr>)"
    using assms by (rule first_index_reads_first_day)
  have "1 < int (length (createCalendarItems (calendarDate st)))"
    using daysInMonthOf_bounds[of "year (calendarDate st)" "month (calendarDate st)"]
    by (simp add: length_createCalendarItems getDaysInMonth_def)
  then show ?thesis
    unfolding onArrowDown_def Let_def item
    by (simp add: assms getNextDay_def)
qed

text \<open>
  C10. With no cell highlighted (\<^verbatim>\<open>null\<close>) the arrow keys read the highlight as index 0,
  the first day of the displayed month. ArrowUp jumps to the previous month and
  highlights its last day whenever the day before the first day is in the range, and
  is blocked otherwise; ArrowDown is blocked when the day after the first day is out of
  the range, and otherwise leaves the move to Downshift. Neither range check is skipped.
\<close>

theorem null_highlight_reads_as_first_day:
  assumes "\<not> isReadOnly props"
    and "validDate (calendarDate st)"
    and "highlightedIndex st = Null"
  shows "onKeyDown props env st inputValue ''ArrowUp'' =
           (if getIsDateInRange (Day (previousDay ((calendarDate st)\<lparr>day := 1\<rparr>)))
                 (minValue props) (maxValue props)
            then (unchanged
                    (st\<lparr>calendarDate := changeMonth (calendarDate st) (- 1),
                        highlightedIndex :=
                          Index (getDaysInMonth (changeMonth (calendarDate st) (- 1)) - 1)\<rparr>))
                 \<lparr>preventDownshiftDefault := True\<rparr>
            else (unchanged st)\<lparr>preventDownshiftDefault := True\<rparr>)
         \<and> onKeyDown props env st inputValue ''ArrowDown'' =
           (if getIsDateInRange (Day (nextDay ((calendarDate st)\<lparr>day := 1\<rparr>)))
                 (minValue props) (maxValue props)
            then unchanged st
            else (unchanged st)\<lparr>preventDownshiftDefault := True\<rparr>)
         \<and> monthIndex (changeMonth (calendarDate st) (- 1)) = monthIndex (calendarDate st) - 1"
proof -
  have zero: "Number (highlightedIndex st) = Some 0"
    using assms(3) by (simp add: Number_def)
  have up: "onKeyDown props env st inputValue ''ArrowUp'' = onArrowUp props env st (unchanged st)"
    using assms(1) by (simp add: onKeyDown_def)
  have down: "onKeyDown props env st inputValue ''ArrowDown'' = onArrowDown props env st (unchanged st)"
    using assms(1) by (simp add: onKeyDown_def)
  show ?thesis
    unfolding up down onArrowUp_at_first_day[OF assms(2) zero] onArrowDown_at_first_day[OF zero]
    by (simp add: monthIndex_changeMonth)
qed

theorem null_highlight_reads_as_first_day_witness:
  "onKeyDown exampleProps exampleEnv (stateOf (ymd 2024 5 31) [] Null) None ''ArrowUp''
     = (unchanged (stateOf (ymd 2024 4 30) [] (Index 29)))\<lparr>preventDownshiftDefault := True\<rparr>
   \<and> onKeyDown exampleProps exampleEnv (stateOf (ymd 2024 3 25) [] Null) None ''ArrowUp''
     = (unchanged (stateOf (ymd 2024 3 25) [] Null))\<lparr>preventDownshiftDefault := True\<rparr>
   \<and> onKeyDown exampleProps exampleEnv (stateOf (ymd 2024 3 25) [] Null) None ''ArrowDown''
     = (unchanged (stateOf (ymd 2024 3 25) [] Null))\<lparr>preventDownshiftDefault := True\<rparr>
   \<and> onKeyDown exampleProps exampleEnv (stateOf (ymd 2024 5 31) [] Null) None ''ArrowDown''
     = unchanged (stateOf (ymd 2024 5 31) [] Null)"
  using null_highlight_reads_as_first_day [of exampleProps "stateOf (ymd 2024 5 31) [] Null"
          exampleEnv None]
        null_highlight_reads_as_first_day [of exampleProps "stateOf (ymd 2024 3 25) [] Null"
          exampleEnv None]
  by (simp add: example_simps date_simps)

section \<open>The read-only guard\<close>

text \<open>
  C9. While \<^verbatim>\<open>isReadOnly\<close> is set, the key handler sets \<^verbatim>\<open>preventDownshiftDefault\<close> and
  returns at once, whatever the key: the displayed month, the highlighted index and the
  suggestions stay as they were, no helper of Downshift is called and nothing is handed
  to \<^verbatim>\<open>onChange\<close>, so a press of Enter commits nothing.
\<close>

theorem readOnly_keydown_is_inert:
  assumes "isReadOnly props"
  shows "onKeyDown props env st inputValue key = (unchanged st)\<lparr>preventDownshiftDefault := True\<rparr>
         \<and> nextState (onKeyDown props env st inputValue key) = st
         \<and> changeEvents (onKeyDown props env st inputValue key) = []
         \<and> downshiftCalls (onKeyDown props env st inputValue key) = []
         \<and> preventDownshiftDefault (onKeyDown props env st inputValue key)
         \<and> pressEnter props env st isOpen inputValue = []"
  using assms by (simp add: onKeyDown_def prevented_def unchanged_def pressEnter_def)

theorem readOnly_keydown_is_inert_witness:
  "onKeyDown (exampleProps\<lparr>isReadOnly := True\<rparr>) exampleEnv
      (stateOf (ymd 2024 3 25) [] (Index 24)) (Some []) ''Enter''
     = (unchanged (stateOf (ymd 2024 3 25) [] (Index 24)))\<lparr>preventDownshiftDefault := True\<rparr>
   \<and> pressEnter (exampleProps\<lparr>isReadOnly := True\<rparr>) exampleEnv
      (stateOf (ymd 2024 3 25) [] (Index 24)) True (Some []) = []"
  using readOnly_keydown_is_inert [of "exampleProps\<lparr>isReadOnly := True\<rparr>" exampleEnv
          "stateOf (ymd 2024 3 25) [] (Index 24)" "Some []" "''Enter''" True]
  by (simp add: example_simps)

section \<open>The buttons of the header\<close>

text \<open>
  C6. The previous-month, next-month, previous-year and next-year buttons of the header
  set the displayed month to the displayed month shifted by -1, +1, -12 and +12 months
  and the highlighted index to 0, for every state and whatever the range. The outcome
  does not depend on \<^verbatim>\<open>minValue\<close> or \<^verbatim>\<open>maxValue\<close>.
\<close>

theorem header_buttons_jump_unchecked:
  "step props env st PrevMonthClick =
     unchanged (st\<lparr>calendarDate := changeMonth (calendarDate st) (- 1), highlightedIndex := Index 0\<rparr>)
   \<and> step props env st NextMonthClick =
     unchanged (st\<lparr>calendarDate := changeMonth (calendarDate st) 1, highlightedIndex := Index 0\<rparr>)
   \<and> step props env st PrevYearClick =
     unchanged (st\<lparr>calendarDate := changeMonth (calendarDate st) (- 12), highlightedIndex := Index 0\<rparr>)
   \<and> step props env st NextYearClick =
     unchanged (st\<lparr>calendarDate := changeMonth (calendarDate st) 12, highlightedIndex := Index 0\<rparr>)
   \<and> monthIndex (changeMonth (calendarDate st) amount) = monthIndex (calendarDate st) + amount
   \<and> (ev \<in> {PrevMonthClick, NextMonthClick, PrevYearClick, NextYearClick} \<longrightarrow>
        step (props\<lparr>minValue := lo, maxValue := hi\<rparr>) env st ev = step props env st ev)"
  by (auto simp add: jumpMonth_def monthIndex_changeMonth)

theorem header_buttons_jump_unchecked_witness:
  "step exampleProps exampleEnv (stateOf (ymd 2024 3 25) [ymd 2024 3 25] (Index 24)) PrevMonthClick
     = unchanged (stateOf (ymd 2024 2 25) [ymd 2024 3 25] (Index 0))
   \<and> \<not> getIsDateInRange (Day (ymd 2024 2 29)) (minValue exampleProps) (maxValue exampleProps)"
  using header_buttons_jump_unchecked [of exampleProps exampleEnv
          "stateOf (ymd 2024 3 25) [ymd 2024 3 25] (Index 24)" 0 PrevMonthClick None None]
  by (simp add: example_simps date_simps)

lemma showToday_highlight:
  "highlightedIndex (nextState (showToday env st))
     = Index (int (length (suggestedItems st)) + getDateInMonth (getToday env) - 1)
   \<and> calendarDate (nextState (showToday env st)) = getToday env
   \<and> domCalls (showToday env st) = [Focus]"
  by (simp add: showToday_def Let_def unchanged_def)

text \<open>
  C5. The today button shows the month of the current day and focuses the input. The
  index it highlights is the number of suggestions plus the day of the month minus one:
  after a typed date left a suggestion, on 10 March 2024 it is 10, the cell of
  11 March, where the cell of today has index 9; with no suggestion it is 9.
\<close>

theorem showToday_counts_suggestions:
  "nextState (onStateChange exampleProps exampleEnv (initialState exampleProps exampleEnv)
      (typed (ofAscii ''2024-03-25'') None)) = stateOf (ymd 2024 3 25) [ymd 2024 3 25] (Index 24)
   \<and> step exampleProps exampleEnv (stateOf (ymd 2024 3 25) [ymd 2024 3 25] (Index 24)) TodayClick
     = (unchanged (stateOf (ymd 2024 3 10) [ymd 2024 3 25] (Index 10)))\<lparr>domCalls := [Focus]\<rparr>
   \<and> getDateInMonth (getToday exampleEnv) - 1 = 9
   \<and> itemAt (createCalendarItems (ymd 2024 3 10)) (Some 10) = Some (ymd 2024 3 11)
   \<and> step exampleProps exampleEnv (stateOf (ymd 2024 3 25) [] (Index 24)) TodayClick
     = (unchanged (stateOf (ymd 2024 3 10) [] (Index 9)))\<lparr>domCalls := [Focus]\<rparr>"
proof -
  have "nextState (onStateChange exampleProps exampleEnv (initialState exampleProps exampleEnv)
      (typed (ofAscii ''2024-03-25'') None)) = stateOf (ymd 2024 3 25) [ymd 2024 3 25] (Index 24)"
    unfolding initial_example
    by (simp add: onStateChange_def typed_def parse_examples unchanged_def)
       (simp add: example_simps date_simps)
  moreover have "itemAt (createCalendarItems (ymd 2024 3 10)) (Some 10) = Some (ymd 2024 3 11)"
    using itemAt_createCalendarItems[of 10 "ymd 2024 3 10"] by (simp add: date_simps)
  ultimately show ?thesis
    by (simp add: showToday_def Let_def unchanged_def getToday_def example_simps date_simps)
qed

section \<open>Typed text\<close>









text \<open>
  C7, as amended. For blank text (empty after \<^verbatim>\<open>trim\<close>), which the parser answers with
  the empty string: typing it clears the suggestions and the highlight. Enter on it
  calls \<^verbatim>\<open>clearSelection\<close> in every state \<open>st'\<close>, and a cleared selection that reaches
  \<^verbatim>\<open>handleChange\<close> is handed to \<^verbatim>\<open>onChange\<close> as the empty string. The events of the
  key press are: first the empty string, when a date is selected, and nothing for the
  clearing when the value is already empty; then the day of the highlighted cell, when
  the menu is open and that cell is enabled and not the selected day. Right after the
  blank text was typed no cell is highlighted, and the events are the empty string
  alone when a date is selected and none otherwise.
\<close>

theorem blank_text_clears_and_commits_empty:
  assumes "\<not> isReadOnly props"
    and "onChange props"
    and "trim text = []"
    and "parseInputToDate env text = Empty"
  shows "nextState (onStateChange props env st (typed text h))
           = st\<lparr>suggestedItems := [], highlightedIndex := Null\<rparr>
       \<and> onKeyDown props env st' (Some text) ''Enter''
           = (unchanged st')\<lparr>downshiftCalls := [ClearSelection]\<rparr>
       \<and> changeEvents (handleChange props st' None) = [changeEvent props Empty]
       \<and> pressEnter props env st' isOpen (Some text)
           = (if propValue props = Empty then [] else [changeEvent props Empty])
             @ (case downshiftEnter props env st' isOpen of
                  None \<Rightarrow> []
                | Some item \<Rightarrow>
                    if Day item = propValue props then [] else [changeEvent props (Day item)])
       \<and> pressEnter props env (nextState (onStateChange props env st (typed text h))) isOpen
            (Some text) = (if propValue props = Empty then [] else [changeEvent props Empty])"
proof -
  have key: "onKeyDown props env s (Some text) ''Enter''
             = (unchanged s)\<lparr>downshiftCalls := [ClearSelection]\<rparr>" for s
    using assms(1,3) by (simp add: onKeyDown_def)
  have clear: "changeEvents (handleChange props s None) = [changeEvent props Empty]" for s
    using assms(2) by (simp add: handleChange_def unchanged_def emit_def changeEvent_def)
  have cleared: "reportSelection props s None
             = (if propValue props = Empty then [] else [changeEvent props Empty])" for s
    using clear[of s] by (simp add: reportSelection_def selectedItem_def)
  have chosen: "reportSelection props s (Some (Day item))
             = (if Day item = propValue props then [] else [changeEvent props (Day item)])"
    for s item
    using assms(2)
    by (auto simp add: reportSelection_def selectedItem_def handleChange_def unchanged_def
          emit_def changeEvent_def)
  have press: "pressEnter props env s isOpen (Some text)
           = (if propValue props = Empty then [] else [changeEvent props Empty])
             @ (case downshiftEnter props env s isOpen of
                  None \<Rightarrow> []
                | Some item \<Rightarrow>
                    if Day item = propValue props then [] else [changeEvent props (Day item)])"
    for s
    unfolding pressEnter_def Let_def key cleared chosen
    by (simp add: unchanged_def split: option.splits)
  have state: "nextState (onStateChange props env st (typed text h))
           = st\<lparr>suggestedItems := [], highlightedIndex := Null\<rparr>"
    using assms(4) by (simp add: onStateChange_def typed_def unchanged_def)
  have "downshiftEnter props env (st\<lparr>suggestedItems := [], highlightedIndex := Null\<rparr>) isOpen = None"
    by (simp add: downshiftEnter_def)
  then have after: "pressEnter props env (nextState (onStateChange props env st (typed text h)))
            isOpen (Some text) = (if propValue props = Empty then [] else [changeEvent props Empty])"
    unfolding state press by simp
  show ?thesis
    using state key[of st'] clear[of st'] press[of st'] after by simp
qed

theorem blank_text_clears_and_commits_empty_witness:
  "nextState (onStateChange exampleProps exampleEnv
      (stateOf (ymd 2024 3 25) [ymd 2024 3 27] (Index 26)) (typed (ofAscii ''  '') None))
     = stateOf (ymd 2024 3 25) [] Null
   \<and> downshiftCalls (onKeyDown exampleProps exampleEnv (stateOf (ymd 2024 3 25) [] Null)
        (Some (ofAscii ''  '')) ''Enter'') = [ClearSelection]
   \<and> pressEnter exampleProps exampleEnv (stateOf (ymd 2024 3 25) [] Null) True
        (Some (ofAscii ''  ''))
     = [\<lparr>targetId = Some ''date'', targetName = Some ''date'', targetValue = Some Empty\<rparr>]
   \<and> pressEnter exampleProps exampleEnv (stateOf (ymd 2024 3 25) [] (Index 26)) True
        (Some (ofAscii ''  ''))
     = [\<lparr>targetId = Some ''date'', targetName = Some ''date'', targetValue = Some Empty\<rparr>,
        \<lparr>targetId = Some ''date'', targetName = Some ''date'',
         targetValue = Some (Day (ymd 2024 3 27))\<rparr>]"
proof -
  have ro: "\<not> isReadOnly exampleProps" and oc: "onChange exampleProps"
    by (simp_all add: exampleProps_def)
  have blank: "trim (ofAscii ''  '') = []"
    by (rule two_spaces_are_blank)
  note inst = blank_text_clears_and_commits_empty [OF ro oc blank parse_examples(3)]
  have a: "nextState (onStateChange exampleProps exampleEnv
      (stateOf (ymd 2024 3 25) [ymd 2024 3 27] (Index 26)) (typed (ofAscii ''  '') None))
     = stateOf (ymd 2024 3 25) [] Null"
    using inst [of "stateOf (ymd 2024 3 25) [ymd 2024 3 27] (Index 26)" None] 
    by (simp add: stateOf_def)
  have b: "downshiftCalls (onKeyDown exampleProps exampleEnv (stateOf (ymd 2024 3 25) [] Null)
        (Some (ofAscii ''  '')) ''Enter'') = [ClearSelection]"
    using inst [of _ _ "stateOf (ymd 2024 3 25) [] Null"] by (simp add: unchanged_def)
  have none: "downshiftEnter exampleProps exampleEnv (stateOf (ymd 2024 3 25) [] Null) True = None"
    by (simp add: downshiftEnter_def stateOf_def)
  have some: "downshiftEnter exampleProps exampleEnv (stateOf (ymd 2024 3 25) [] (Index 26)) True
              = Some (ymd 2024 3 27)"
    using calendarCells_nth[of 26 "stateOf (ymd 2024 3 25) [] (Index 26)" exampleProps exampleEnv]
    by (simp add: downshiftEnter_def length_calendarCells Let_def example_simps date_simps)
  have sel: "propValue exampleProps = Day (ymd 2024 3 25)"
    by (simp add: exampleProps_def)
  have c: "pressEnter exampleProps exampleEnv (stateOf (ymd 2024 3 25) [] Null) True
        (Some (ofAscii ''  '')) = [changeEvent exampleProps Empty]"
    using inst [of _ _ "stateOf (ymd 2024 3 25) [] Null" True] unfolding none sel by simp
  have d: "pressEnter exampleProps exampleEnv (stateOf (ymd 2024 3 25) [] (Index 26)) True
        (Some (ofAscii ''  ''))
        = [changeEvent exampleProps Empty, changeEvent exampleProps (Day (ymd 2024 3 27))]"
    using inst [of _ _ "stateOf (ymd 2024 3 25) [] (Index 26)" True] unfolding some sel
    by (simp add: ymd_def)
  have e: "changeEvent exampleProps v
     = \<lparr>targetId = Some ''date'', targetName = Some ''date'', targetValue = Some v\<rparr>" for v
    by (simp add: changeEvent_def exampleProps_def)
  show ?thesis
    using a b c d unfolding e by blast
qed

text \<open>
  With no date selected the clearing is not reported: the value is the empty string,
  the text is two spaces, and neither Enter right after the typing nor Enter in any
  state without a highlighted cell hands the consumer an event.
\<close>

theorem blank_enter_without_selection_emits_nothing:
  "trim (ofAscii ''  '') = []
   \<and> parseInputToDate exampleEnv (ofAscii ''  '') = Empty
   \<and> onChange (exampleProps\<lparr>propValue := Empty\<rparr>)
   \<and> isReadOnly (exampleProps\<lparr>propValue := Empty\<rparr>) = False
   \<and> initialState (exampleProps\<lparr>propValue := Empty\<rparr>) exampleEnv = stateOf (ymd 2024 3 10) [] Null
   \<and> nextState (onStateChange (exampleProps\<lparr>propValue := Empty\<rparr>) exampleEnv
        (stateOf (ymd 2024 3 10) [] Null) (typed (ofAscii ''  '') None))
      = stateOf (ymd 2024 3 10) [] Null
   \<and> downshiftCalls (onKeyDown (exampleProps\<lparr>propValue := Empty\<rparr>) exampleEnv
        (stateOf (ymd 2024 3 10) [] Null) (Some (ofAscii ''  '')) ''Enter'') = [ClearSelection]
   \<and> pressEnter (exampleProps\<lparr>propValue := Empty\<rparr>) exampleEnv
        (stateOf (ymd 2024 3 10) [] Null) True (Some (ofAscii ''  '')) = []"
proof -
  have blank: "trim (ofAscii ''  '') = []"
    by (rule two_spaces_are_blank)
  have key: "onKeyDown (exampleProps\<lparr>propValue := Empty\<rparr>) exampleEnv
        (stateOf (ymd 2024 3 10) [] Null) (Some (ofAscii ''  '')) ''Enter''
        = (unchanged (stateOf (ymd 2024 3 10) [] Null))\<lparr>downshiftCalls := [ClearSelection]\<rparr>"
    by (simp add: onKeyDown_def blank exampleProps_def)
  have "pressEnter (exampleProps\<lparr>propValue := Empty\<rparr>) exampleEnv
        (stateOf (ymd 2024 3 10) [] Null) True (Some (ofAscii ''  '')) = []"
    unfolding pressEnter_def Let_def key
    by (simp add: unchanged_def reportSelection_def selectedItem_def downshiftEnter_def
          stateOf_def)
  moreover have "nextState (onStateChange (exampleProps\<lparr>propValue := Empty\<rparr>) exampleEnv
        (stateOf (ymd 2024 3 10) [] Null) (typed (ofAscii ''  '') None))
      = stateOf (ymd 2024 3 10) [] Null"
    by (simp add: onStateChange_def typed_def parse_examples unchanged_def stateOf_def)
  moreover have "initialState (exampleProps\<lparr>propValue := Empty\<rparr>) exampleEnv
      = stateOf (ymd 2024 3 10) [] Null"
    by (simp add: initialState_def getToday_def example_simps)
  ultimately show ?thesis
    using blank key parse_examples(3) by (simp add: exampleProps_def unchanged_def)
qed

section \<open>Blur of the input\<close>

text \<open>
  C4, as amended. On blur of the input, with the state untouched: if the text is the
  empty string (length 0) the empty string is emitted; if the text is not empty and
  parses to a day in the range, that day is emitted; if the text is not empty and is
  unparseable or out of the range, white space alone included, nothing is emitted.
\<close>

theorem blur_commits_parsed_text:
  assumes "onChange props"
  shows "nextState (onInputBlur props env st (Some text)) = st
       \<and> (text = [] \<and> parseInputToDate env text = Empty \<longrightarrow>
            changeEvents (onInputBlur props env st (Some text)) = [changeEvent props Empty])
       \<and> (text \<noteq> [] \<and> parseInputToDate env text = Day d
            \<and> getIsDateInRange (Day d) (minValue props) (maxValue props) \<longrightarrow>
            changeEvents (onInputBlur props env st (Some text)) = [changeEvent props (Day d)])
       \<and> (text \<noteq> [] \<and> (parseInputToDate env text = Empty
              \<or> \<not> getIsDateInRange (parseInputToDate env text) (minValue props) (maxValue props)) \<longrightarrow>
            changeEvents (onInputBlur props env st (Some text)) = [])"
  using assms
  by (auto simp add: onInputBlur_def Let_def unchanged_def emit_def changeEvent_def
        getIsDateInRange_def)

theorem blur_commits_parsed_text_witness:
  "changeEvents (onInputBlur exampleProps exampleEnv (stateOf (ymd 2024 3 25) [] Null) (Some []))
     = [changeEvent exampleProps Empty]
   \<and> changeEvents (onInputBlur exampleProps exampleEnv (stateOf (ymd 2024 3 25) [] Null)
        (Some (ofAscii ''2024-03-25''))) = [changeEvent exampleProps (Day (ymd 2024 3 25))]
   \<and> changeEvents (onInputBlur exampleProps exampleEnv (stateOf (ymd 2024 3 25) [] Null)
        (Some (ofAscii ''2024-03-15''))) = []
   \<and> changeEvents (onInputBlur exampleProps exampleEnv (stateOf (ymd 2024 3 25) [] Null)
        (Some (ofAscii ''tomorrow''))) = []"
proof -
  have oc: "onChange exampleProps"
    by (simp add: exampleProps_def)
  have inr: "getIsDateInRange (Day (ymd 2024 3 25)) (minValue exampleProps) (maxValue exampleProps)"
    and out: "\<not> getIsDateInRange (Day (ymd 2024 3 15)) (minValue exampleProps) (maxValue exampleProps)"
    by (simp_all add: example_simps date_simps)
  show ?thesis
    using blur_commits_parsed_text [OF oc, of exampleEnv "stateOf (ymd 2024 3 25) [] Null" "[]"]
      blur_commits_parsed_text [OF oc, of exampleEnv "stateOf (ymd 2024 3 25) [] Null"
        "ofAscii ''2024-03-25''" "ymd 2024 3 25"]
      blur_commits_parsed_text [OF oc, of exampleEnv "stateOf (ymd 2024 3 25) [] Null"
        "ofAscii ''2024-03-15''"]
      blur_commits_parsed_text [OF oc, of exampleEnv "stateOf (ymd 2024 3 25) [] Null"
        "ofAscii ''tomorrow''"]
      inr out
    by (simp add: parse_examples ofAscii_empty)
qed

text \<open>
  Text of white space alone is blank to \<^verbatim>\<open>trim\<close> and to the parser, but its length is
  not 0: blur emits nothing for it.
\<close>

theorem blur_of_white_space_emits_nothing:
  "trim (ofAscii ''  '') = []
   \<and> parseInputToDate exampleEnv (ofAscii ''  '') = Empty
   \<and> changeEvents (onInputBlur exampleProps exampleEnv (stateOf (ymd 2024 3 25) [] Null)
        (Some (ofAscii ''  ''))) = []
   \<and> changeEvents (onInputBlur exampleProps exampleEnv (stateOf (ymd 2024 3 25) [] Null)
        (Some (ofAscii ''  ''))) \<noteq> [changeEvent exampleProps Empty]"
  by (simp add: two_spaces_are_blank parse_examples onInputBlur_def Let_def unchanged_def
        ofAscii_empty)

section \<open>A missing change handler\<close>

text \<open>
  C8. With \<^verbatim>\<open>isReadOnly\<close> off and no \<^verbatim>\<open>onChange\<close>, rendering logs one warning and
  nothing else differs: every interaction has the outcome it has with \<^verbatim>\<open>onChange\<close>
  passed, the same state, calls and blur events, but for the change events, of which
  there are none; and the calendar is rendered the same.
\<close>

theorem missing_onChange_only_warns:
  assumes "\<not> isReadOnly props"
  shows "renderWarnings (props\<lparr>onChange := False\<rparr>)
           = [''DateInput: `onChange` is required when input is not read only.'']
       \<and> renderWarnings (props\<lparr>onChange := True\<rparr>) = []
       \<and> step (props\<lparr>onChange := False\<rparr>) env st ev
           = (step (props\<lparr>onChange := True\<rparr>) env st ev)\<lparr>changeEvents := []\<rparr>
       \<and> render (props\<lparr>onChange := False\<rparr>) env st isOpen
           = render (props\<lparr>onChange := True\<rparr>) env st isOpen"
proof -
  have key: "onKeyDown (props\<lparr>onChange := False\<rparr>) env st iv k
           = (onKeyDown (props\<lparr>onChange := True\<rparr>) env st iv k)\<lparr>changeEvents := []\<rparr>" for iv k
    by (simp add: onKeyDown_def onArrowDown_def onArrowUp_def Let_def prevented_def unchanged_def)
  have change: "onStateChange (props\<lparr>onChange := False\<rparr>) env st c
           = (onStateChange (props\<lparr>onChange := True\<rparr>) env st c)\<lparr>changeEvents := []\<rparr>" for c
    by (simp add: onStateChange_def Let_def unchanged_def split: option.splits DateString.splits)
  have blur: "onInputBlur (props\<lparr>onChange := False\<rparr>) env st v
           = (onInputBlur (props\<lparr>onChange := True\<rparr>) env st v)\<lparr>changeEvents := []\<rparr>" for v
    by (simp add: onInputBlur_def Let_def unchanged_def emit_def)
  have "step (props\<lparr>onChange := False\<rparr>) env st ev
           = (step (props\<lparr>onChange := True\<rparr>) env st ev)\<lparr>changeEvents := []\<rparr>"
    by (cases ev)
      (simp_all add: key change blur handleChange_def handleBlur_def showToday_def Let_def
        unchanged_def emit_def)
  moreover have "render (props\<lparr>onChange := False\<rparr>) env st isOpen
           = render (props\<lparr>onChange := True\<rparr>) env st isOpen"
    by (simp add: render_def calendarCells_def)
  ultimately show ?thesis
    using assms by (simp add: renderWarnings_def warning_def)
qed

theorem missing_onChange_only_warns_witness:
  "renderWarnings (exampleProps\<lparr>onChange := False\<rparr>)
     = [''DateInput: `onChange` is required when input is not read only.'']
   \<and> step (exampleProps\<lparr>onChange := False\<rparr>) exampleEnv (stateOf (ymd 2024 3 25) [] Null)
        (InputBlur (Some (ofAscii ''2024-03-25'')))
     = unchanged (stateOf (ymd 2024 3 25) [] Null)
   \<and> step (exampleProps\<lparr>onChange := True\<rparr>) exampleEnv (stateOf (ymd 2024 3 25) [] Null)
        (InputBlur (Some (ofAscii ''2024-03-25'')))
     = (unchanged (stateOf (ymd 2024 3 25) [] Null))
         \<lparr>changeEvents := [changeEvent exampleProps (Day (ymd 2024 3 25))]\<rparr>"
proof -
  have ro: "\<not> isReadOnly exampleProps"
    by (simp add: exampleProps_def)
  have "step (exampleProps\<lparr>onChange := True\<rparr>) exampleEnv (stateOf (ymd 2024 3 25) [] Null)
        (InputBlur (Some (ofAscii ''2024-03-25'')))
     = (unchanged (stateOf (ymd 2024 3 25) [] Null))
         \<lparr>changeEvents := [changeEvent exampleProps (Day (ymd 2024 3 25))]\<rparr>"
    by (simp add: onInputBlur_def Let_def parse_examples unchanged_def emit_def changeEvent_def
          ofAscii_empty)
       (simp add: example_simps date_simps)
  then show ?thesis
    using missing_onChange_only_warns [OF ro, of exampleEnv "stateOf (ymd 2024 3 25) [] Null"
        "InputBlur (Some (ofAscii ''2024-03-25''))" True]
    by (simp add: unchanged_def)
qed

end
